theory Spec2Isabelle
  imports Complex_Main "HOL-Library.Sublist" "HOL-Library.Multiset" "HOL-Library.List_Lexorder"
    "HOL-Library.Char_ord"
begin

section \<open>Data model of \<open>dashboard.py\<close>\<close>

text \<open>
  The script holds one pandas DataFrame \<open>df\<close>, read from a CSV file, rewrites three
  coded columns, casts \<open>remote_ratio\<close>, adds the column \<open>country_iso3\<close>, selects the
  rows the sidebar widgets allow into a second DataFrame \<open>df_filtered\<close> and aggregates
  that one.

  A DataFrame is modelled as the list of its rows, in row order; a row is identified by
  its position, and the index labels of pandas are not modelled. A row of the CSV file is
  a \<open>csv_row\<close>; the type of a label cell and of a \<open>remote_ratio\<close> cell change during
  normalisation, so both are type parameters. A missing value (pandas' NaN or None in a
  column) is \<open>None\<close>. A number in a cell or in a result is the rational it denotes, an
  int64 exactly and a float64 as the dyadic rational it is; the one float that is not a
  number is kept as \<open>NaN\<close>.
\<close>

datatype py_error = ValueError | TypeError | AttributeError | KeyError | LookupError

datatype pyfloat = NaN | Num rat

record ('l, 'c) csv_row =
  work_year :: int
  experience_level :: 'l
  employment_type :: 'l
  employee_residence :: string
  remote_ratio :: 'c
  company_size :: 'l
  salary_in_usd :: rat

record ('l, 'c) df_row = "('l, 'c) csv_row" +
  country_iso3 :: "string option"

type_synonym 'c raw_row = "(string, 'c) csv_row"
type_synonym row = "(string option, int) df_row"

text \<open>What \<open>pycountry.countries.get\<close> returns when it finds a country.\<close>

record country =
  alpha_2 :: string
  alpha_3 :: string

section \<open>Normalisation (lines 17 to 28)\<close>

text \<open>\<open>Series.map(dict)\<close>: a value that is no key of the dictionary becomes NaN.\<close>

definition experience_level_map :: "string \<rightharpoonup> string" where
  "experience_level_map =
     map_of [(''EN'', ''Junior''), (''MI'', ''Mid''), (''SE'', ''Senior''), (''EX'', ''Executive'')]"

definition company_size_map :: "string \<rightharpoonup> string" where
  "company_size_map = map_of [(''S'', ''Small''), (''M'', ''Medium''), (''L'', ''Large'')]"

definition employment_type_map :: "string \<rightharpoonup> string" where
  "employment_type_map =
     map_of [(''FT'', ''Full-time''), (''PT'', ''Part-time''), (''CT'', ''Contract''),
             (''FL'', ''Freelance'')]"

text \<open>
  \<open>Series.astype(int)\<close> converts every cell or raises. The conversion of one cell is
  library code; it is the parameter \<open>to_int\<close>, which returns the integer or the
  exception it raises. The exception of the first cell that fails leaves \<open>astype\<close>.
\<close>

fun astype_int :: "('c \<Rightarrow> py_error + int) \<Rightarrow> 'c list \<Rightarrow> py_error + int list" where
  "astype_int to_int [] = Inr []"
| "astype_int to_int (c # cs) =
     (case to_int c of
        Inl e \<Rightarrow> Inl e
      | Inr i \<Rightarrow> (case astype_int to_int cs of Inl e \<Rightarrow> Inl e | Inr is \<Rightarrow> Inr (i # is)))"

text \<open>
  \<open>iso2_to_iso3\<close>: the lookup \<open>pycountry.countries.get(alpha_2=...)\<close> is the parameter
  \<open>get\<close>; it raises, returns None or returns a country. Reading \<open>.alpha_3\<close> of None
  raises AttributeError. The bare \<open>except\<close> turns every exception into None.
\<close>

definition iso2_to_iso3 :: "(string \<Rightarrow> py_error + country option) \<Rightarrow> string \<Rightarrow> string option" where
  "iso2_to_iso3 get alpha2 =
     (case (case get alpha2 of
              Inl e \<Rightarrow> Inl e
            | Inr None \<Rightarrow> Inl AttributeError
            | Inr (Some c) \<Rightarrow> Inr (alpha_3 c)) of
        Inl e \<Rightarrow> None
      | Inr a3 \<Rightarrow> Some a3)"

text \<open>One row after lines 17 to 28, given the integer its \<open>remote_ratio\<close> cell became.\<close>

definition normalize_row ::
  "(string \<Rightarrow> py_error + country option) \<Rightarrow> 'c raw_row \<Rightarrow> int \<Rightarrow> row" where
  "normalize_row get r i =
     \<lparr>work_year = work_year r,
      experience_level = experience_level_map (experience_level r),
      employment_type = employment_type_map (employment_type r),
      employee_residence = employee_residence r,
      remote_ratio = i,
      company_size = company_size_map (company_size r),
      salary_in_usd = salary_in_usd r,
      country_iso3 = iso2_to_iso3 get (employee_residence r)\<rparr>"

text \<open>
  Lines 17 to 28 on the whole table. The three \<open>map\<close> calls cannot raise; \<open>astype\<close> on
  line 20 can, and nothing catches it, so the script ends there.
\<close>

definition normalizer ::
  "('c \<Rightarrow> py_error + int) \<Rightarrow> (string \<Rightarrow> py_error + country option) \<Rightarrow> 'c raw_row list
     \<Rightarrow> py_error + row list" where
  "normalizer to_int get df =
     (case astype_int to_int (map remote_ratio df) of
        Inl e \<Rightarrow> Inl e
      | Inr is \<Rightarrow> Inr (map2 (normalize_row get) df is))"

section \<open>Filters (lines 44 to 60)\<close>

text \<open>\<open>Series.unique()\<close>: the distinct values in order of first appearance; NaN is one of them.\<close>

fun unique :: "'a list \<Rightarrow> 'a list" where
  "unique [] = []"
| "unique (x # xs) = x # filter (\<lambda>y. y \<noteq> x) (unique xs)"

text \<open>The values of the five sidebar widgets.\<close>

record filters =
  exp_filter :: "string option list"
  size_filter :: "string option list"
  remote_filter :: "int \<times> int"
  country_filter :: "string list"
  year_filter :: "int list"

text \<open>The widgets' defaults on lines 44 to 48: everything observed, and the slider at (0, 100).\<close>

definition default_filters :: "row list \<Rightarrow> filters" where
  "default_filters df =
     \<lparr>exp_filter = unique (map experience_level df),
      size_filter = unique (map company_size df),
      remote_filter = (0, 100),
      country_filter = unique (map employee_residence df),
      year_filter = sort (unique (map work_year df))\<rparr>"

text \<open>
  Boolean Series: \<open>isin\<close> (in pandas NaN is in a list that holds NaN), the two
  comparisons, and the elementwise \<open>&\<close>.
\<close>

definition isin :: "'a list \<Rightarrow> 'a list \<Rightarrow> bool list" where
  "isin col vals = map (\<lambda>x. x \<in> set vals) col"

definition series_ge :: "int list \<Rightarrow> int \<Rightarrow> bool list" where
  "series_ge col v = map (\<lambda>x. x \<ge> v) col"

definition series_le :: "int list \<Rightarrow> int \<Rightarrow> bool list" where
  "series_le col v = map (\<lambda>x. x \<le> v) col"

definition series_and :: "bool list \<Rightarrow> bool list \<Rightarrow> bool list" where
  "series_and a b = map2 (\<and>) a b"

text \<open>The mask of lines 54 to 59; \<open>&\<close> associates to the left.\<close>

definition filter_mask :: "row list \<Rightarrow> filters \<Rightarrow> bool list" where
  "filter_mask df p =
     series_and (series_and (series_and (series_and (series_and
       (isin (map experience_level df) (exp_filter p))
       (isin (map company_size df) (size_filter p)))
       (series_ge (map remote_ratio df) (fst (remote_filter p))))
       (series_le (map remote_ratio df) (snd (remote_filter p))))
       (isin (map employee_residence df) (country_filter p)))
       (isin (map work_year df) (year_filter p))"

text \<open>\<open>df[mask]\<close>: the rows, in order, whose mask entry is True.\<close>

definition getitem_mask :: "bool list \<Rightarrow> 'a list \<Rightarrow> 'a list" where
  "getitem_mask m xs = map snd (filter fst (zip m xs))"

definition df_filtered :: "row list \<Rightarrow> filters \<Rightarrow> row list" where
  "df_filtered df p = getitem_mask (filter_mask df p) df"

text \<open>The conjunction of the five predicates, as the specification words it.\<close>

definition satisfies :: "filters \<Rightarrow> row \<Rightarrow> bool" where
  "satisfies p r \<longleftrightarrow>
     experience_level r \<in> set (exp_filter p) \<and>
     company_size r \<in> set (size_filter p) \<and>
     fst (remote_filter p) \<le> remote_ratio r \<and> remote_ratio r \<le> snd (remote_filter p) \<and>
     employee_residence r \<in> set (country_filter p) \<and>
     work_year r \<in> set (year_filter p)"

section \<open>Floating point\<close>

text \<open>Rounding to an integer, ties to the even one.\<close>

definition round_half_even :: "rat \<Rightarrow> int" where
  "round_half_even q =
     (let f = \<lfloor>q\<rfloor>; d = q - of_int f
      in if d < 1 / 2 then f else if 1 / 2 < d then f + 1 else if even f then f else f + 1)"

text \<open>
  The result of a float64 operation is the exact result rounded to a significand of 53
  bits, ties to even. \<open>ilog2 n\<close> is the position of the highest bit of \<open>n\<close>;
  \<open>float64_exponent a\<close> is the binary exponent of a positive \<open>a\<close>. The ends of the
  exponent range (infinities and subnormal numbers) are not modelled: the mean of a
  salary column stays far from both.
\<close>

fun ilog2 :: "nat \<Rightarrow> nat" where
  "ilog2 n = (if n < 2 then 0 else Suc (ilog2 (n div 2)))"

declare ilog2.simps [simp del]

definition float64_exponent :: "rat \<Rightarrow> int" where
  "float64_exponent a =
     (if 1 \<le> a then int (ilog2 (nat \<lfloor>a\<rfloor>))
      else - int (Suc (ilog2 (nat \<lceil>1 / a\<rceil> - 1))))"

definition float64 :: "rat \<Rightarrow> rat" where
  "float64 q =
     (if q = 0 then 0
      else let a = \<bar>q\<bar>; u = 2 powi (float64_exponent a - 52)
           in sgn q * of_int (round_half_even (a / u)) * u)"

section \<open>Scalar summary (lines 66 to 68)\<close>

text \<open>
  \<open>mean()\<close> is NaN on no values and otherwise the float64 sum of the values divided, in
  float64, by their number. The summation is library code, and the order in which it adds
  (and so how it rounds) differs between \<open>Series.mean\<close> and \<open>groupby(...).mean\<close>; it is
  the parameter \<open>fsum\<close>, the float64 the library's sum returns for a list of values.
\<close>

definition series_mean :: "(rat list \<Rightarrow> rat) \<Rightarrow> rat list \<Rightarrow> pyfloat" where
  "series_mean fsum xs =
     (if xs = [] then NaN else Num (float64 (fsum xs / of_nat (length xs))))"

text \<open>\<open>Series.min()\<close> and \<open>max()\<close>: NaN on no values, no exception.\<close>

definition series_min :: "rat list \<Rightarrow> pyfloat" where
  "series_min xs = (case xs of [] \<Rightarrow> NaN | x # ys \<Rightarrow> Num (fold min ys x))"

definition series_max :: "rat list \<Rightarrow> pyfloat" where
  "series_max xs = (case xs of [] \<Rightarrow> NaN | x # ys \<Rightarrow> Num (fold max ys x))"

text \<open>
  The format \<open>,.0f\<close>: no decimals (ties go to the even integer), a comma between groups
  of three digits, a minus sign for a negative number, and \<open>nan\<close> for NaN.
\<close>

fun digits :: "nat \<Rightarrow> string" where
  "digits n =
     (if n < 10 then [''0123456789'' ! n]
      else digits (n div 10) @ [''0123456789'' ! (n mod 10)])"

declare digits.simps [simp del]

function group3 :: "string \<Rightarrow> string" where
  "group3 s =
     (if length s \<le> 3 then s
      else group3 (take (length s - 3) s) @ '','' @ drop (length s - 3) s)"
  by pat_completeness auto
termination
  by (relation "measure length") auto

declare group3.simps [simp del]

definition format_comma_0f :: "pyfloat \<Rightarrow> string" where
  "format_comma_0f x =
     (case x of
        NaN \<Rightarrow> ''nan''
      | Num q \<Rightarrow> (if q < 0 then ''-'' else []) @ group3 (digits (nat \<bar>round_half_even q\<bar>)))"

text \<open>The three markdown lines of the summary, in the order the script writes them.\<close>

definition summary_markdown :: "(rat list \<Rightarrow> rat) \<Rightarrow> row list \<Rightarrow> string list" where
  "summary_markdown series_sum dff =
     [''- **Salaire moyen** : $'' @
        format_comma_0f (series_mean series_sum (map salary_in_usd dff)),
      ''- **Salaire minimum** : $'' @ format_comma_0f (series_min (map salary_in_usd dff)),
      ''- **Salaire maximum** : $'' @ format_comma_0f (series_max (map salary_in_usd dff))]"

section \<open>Grouped means (lines 77, 96 and 116)\<close>

text \<open>
  \<open>groupby(col)\<close>: one group per value of the column, the keys in ascending order; a row
  whose key is missing (NaN or None) is in no group. The rows of a group keep their order.
\<close>

definition groupby :: "('r \<Rightarrow> 'k::linorder option) \<Rightarrow> 'r list \<Rightarrow> ('k \<times> 'r list) list" where
  "groupby key dff =
     map (\<lambda>k. (k, filter (\<lambda>r. key r = Some k) dff)) (sort (unique (List.map_filter key dff)))"

definition groupby_mean ::
  "(rat list \<Rightarrow> rat) \<Rightarrow> ('k \<times> row list) list \<Rightarrow> ('k \<times> pyfloat) list" where
  "groupby_mean group_sum gs =
     map (\<lambda>(k, g). (k, series_mean group_sum (map salary_in_usd g))) gs"

definition mean_salary_year :: "(rat list \<Rightarrow> rat) \<Rightarrow> row list \<Rightarrow> (int \<times> pyfloat) list" where
  "mean_salary_year group_sum dff =
     groupby_mean group_sum (groupby (\<lambda>r. Some (work_year r)) dff)"


section \<open>The column \<open>remote_group\<close> (line 103)\<close>

text \<open>
  \<open>pd.cut(x, bins, labels)\<close> with its defaults: the intervals are open on the left and
  closed on the right, the lowest edge is not included, and a value in no interval
  becomes NaN.
\<close>

fun cut :: "int list \<Rightarrow> 'l list \<Rightarrow> int \<Rightarrow> 'l option" where
  "cut (lo # hi # bins) (l # labels) x =
     (if lo < x \<and> x \<le> hi then Some l else cut (hi # bins) labels x)"
| "cut _ _ _ = None"

definition remote_group_of :: "int \<Rightarrow> string option" where
  "remote_group_of x =
     cut [0, 25, 50, 75, 100] [''0-25'', ''26-50'', ''51-75'', ''76-100''] x"

section \<open>DataFrame objects\<close>

text \<open>
  \<open>df\<close> and \<open>df_filtered\<close> are names of DataFrame objects, and line 103 assigns a
  column of the object \<open>df_filtered\<close> names. Whether that reaches \<open>df\<close> depends on which
  object each name refers to, so the objects live in a store: the list of the objects
  allocated so far, an object's address being its position. A DataFrame object holds its
  rows and, once assigned, the column \<open>remote_group\<close>.
\<close>

record frame =
  rows :: "row list"
  remote_group :: "string option list option"

type_synonym store = "frame list"

text \<open>\<open>obj[mask]\<close> allocates a new DataFrame with the selected rows.\<close>

definition boolean_index :: "store \<Rightarrow> nat \<Rightarrow> bool list \<Rightarrow> store \<times> nat" where
  "boolean_index st a m =
     (st @ [\<lparr>rows = getitem_mask m (rows (st ! a)),
             remote_group = map_option (getitem_mask m) (remote_group (st ! a))\<rparr>],
      length st)"

text \<open>\<open>obj.copy()\<close> allocates a new DataFrame with the same content.\<close>

definition copy :: "store \<Rightarrow> nat \<Rightarrow> store \<times> nat" where
  "copy st a = (st @ [st ! a], length st)"

text \<open>\<open>obj['remote_group'] = col\<close> changes the object in place.\<close>

definition setitem_remote_group :: "store \<Rightarrow> nat \<Rightarrow> string option list \<Rightarrow> store" where
  "setitem_remote_group st a col = st[a := (st ! a)\<lparr>remote_group := Some col\<rparr>]"

text \<open>Lines 53 to 60: the new store and the address bound to \<open>df_filtered\<close>.\<close>

definition apply_filters :: "store \<Rightarrow> nat \<Rightarrow> filters \<Rightarrow> store \<times> nat" where
  "apply_filters st df p =
     (let (st1, tmp) = boolean_index st df (filter_mask (rows (st ! df)) p)
      in copy st1 tmp)"

text \<open>Line 103.\<close>

definition add_remote_group :: "store \<Rightarrow> nat \<Rightarrow> store" where
  "add_remote_group st dff =
     setitem_remote_group st dff (map remote_group_of (map remote_ratio (rows (st ! dff))))"

text \<open>Lines 53 to 103 as far as they touch the store.\<close>

definition filtered_view :: "store \<Rightarrow> nat \<Rightarrow> filters \<Rightarrow> store \<times> nat" where
  "filtered_view st df p =
     (let (st1, dff) = apply_filters st df p in (add_remote_group st1 dff, dff))"

section \<open>The script\<close>

text \<open>What one run of the script hands to the page.\<close>

record page =
  summary :: "string list"
  chart_year :: "(int \<times> pyfloat) list"
  chart_company :: "(string \<times> pyfloat) list"
  chart_country :: "(string \<times> pyfloat) list"
  table :: frame

text \<open>
  One run, from the loaded table and the widgets' values. An exception of the
  normalisation ends the run; nothing after it raises. \<open>series_sum\<close> is the summation
  of \<open>Series.mean\<close> and \<open>group_sum\<close> the one of \<open>groupby(...).mean\<close>.
\<close>

definition dashboard ::
  "('c \<Rightarrow> py_error + int) \<Rightarrow> (string \<Rightarrow> py_error + country option) \<Rightarrow>
     (rat list \<Rightarrow> rat) \<Rightarrow> (rat list \<Rightarrow> rat) \<Rightarrow> 'c raw_row list \<Rightarrow> filters \<Rightarrow> py_error + page" where
  "dashboard to_int get series_sum group_sum csv p =
     (case normalizer to_int get csv of
        Inl e \<Rightarrow> Inl e
      | Inr df \<Rightarrow>
          (let (st1, dff) = apply_filters [\<lparr>rows = df, remote_group = None\<rparr>] 0 p;
               st2 = add_remote_group st1 dff
           in Inr \<lparr>summary = summary_markdown series_sum (rows (st1 ! dff)),
                   chart_year = mean_salary_year group_sum (rows (st1 ! dff)),
                   chart_company =
                     groupby_mean group_sum (groupby company_size (rows (st1 ! dff))),
                   chart_country =
                     groupby_mean group_sum (groupby country_iso3 (rows (st2 ! dff))),
                   table = st2 ! dff\<rparr>))"


section \<open>A small table\<close>

text \<open>
  Three rows of a CSV file whose \<open>remote_ratio\<close> cells are an integer or empty, a cell
  conversion that raises on the empty cell, and a country table that knows two codes. The
  third row has an employment type no dictionary of the script knows and a residence the
  country table does not know.
\<close>

definition example_to_int :: "int option \<Rightarrow> py_error + int" where
  "example_to_int c = (case c of None \<Rightarrow> Inl ValueError | Some i \<Rightarrow> Inr i)"

definition example_get :: "string \<Rightarrow> py_error + country option" where
  "example_get a =
     (if a = ''US'' then Inr (Some \<lparr>alpha_2 = ''US'', alpha_3 = ''USA''\<rparr>)
      else if a = ''FR'' then Inr (Some \<lparr>alpha_2 = ''FR'', alpha_3 = ''FRA''\<rparr>)
      else if a = ''??'' then Inl LookupError
      else Inr None)"

definition example_csv :: "int option raw_row list" where
  "example_csv =
     [\<lparr>work_year = 2020, experience_level = ''SE'', employment_type = ''FT'',
       employee_residence = ''US'', remote_ratio = Some 0, company_size = ''M'',
       salary_in_usd = 100\<rparr>,
      \<lparr>work_year = 2021, experience_level = ''MI'', employment_type = ''PT'',
       employee_residence = ''FR'', remote_ratio = Some 100, company_size = ''L'',
       salary_in_usd = 300\<rparr>,
      \<lparr>work_year = 2020, experience_level = ''EN'', employment_type = ''XX'',
       employee_residence = ''ZZ'', remote_ratio = Some 50, company_size = ''S'',
       salary_in_usd = 200\<rparr>]"

text \<open>The same file with the second \<open>remote_ratio\<close> cell empty.\<close>

definition example_csv_bad :: "int option raw_row list" where
  "example_csv_bad = example_csv[1 := (example_csv ! 1)\<lparr>remote_ratio := None\<rparr>]"

text \<open>What the normalisation makes of \<open>example_csv\<close>.\<close>

definition example_row_us :: row where
  "example_row_us =
     \<lparr>work_year = 2020, experience_level = Some ''Senior'', employment_type = Some ''Full-time'',
      employee_residence = ''US'', remote_ratio = 0, company_size = Some ''Medium'',
      salary_in_usd = 100, country_iso3 = Some ''USA''\<rparr>"

definition example_row_fr :: row where
  "example_row_fr =
     \<lparr>work_year = 2021, experience_level = Some ''Mid'', employment_type = Some ''Part-time'',
      employee_residence = ''FR'', remote_ratio = 100, company_size = Some ''Large'',
      salary_in_usd = 300, country_iso3 = Some ''FRA''\<rparr>"

definition example_row_zz :: row where
  "example_row_zz =
     \<lparr>work_year = 2020, experience_level = Some ''Junior'', employment_type = None,
      employee_residence = ''ZZ'', remote_ratio = 50, company_size = Some ''Small'',
      salary_in_usd = 200, country_iso3 = None\<rparr>"

definition example_df :: "row list" where
  "example_df = [example_row_us, example_row_fr, example_row_zz]"

text \<open>A float64 summation: the values added from left to right, each sum rounded.\<close>

definition example_sum :: "rat list \<Rightarrow> rat" where
  "example_sum xs = foldl (\<lambda>s x. float64 (s + x)) 0 xs"


text \<open>
  Widget values: the slider narrowed to (0, 60); and no experience level selected, which
  no row passes.
\<close>

definition example_filters_narrow :: filters where
  "example_filters_narrow = (default_filters example_df)\<lparr>remote_filter := (0, 60)\<rparr>"

definition example_filters_none :: filters where
  "example_filters_none = (default_filters example_df)\<lparr>exp_filter := []\<rparr>"


text \<open>A store that holds one object, the normalised table.\<close>

definition example_store :: store where
  "example_store = [\<lparr>rows = example_df, remote_group = None\<rparr>]"

section \<open>Facts about the normalisation\<close>

lemma astype_int_Inr: "astype_int f cs = Inr js \<longleftrightarrow> map f cs = map Inr js"
proof (induction cs arbitrary: js)
  case Nil
  then show ?case by auto
next
  case (Cons c cs)
  show ?case
  proof (cases "f c")
    case (Inl e)
    then show ?thesis by (cases js) auto
  next
    case (Inr i)
    show ?thesis
    proof (cases "astype_int f cs")
      case (Inl e)
      have "map f cs \<noteq> map Inr ks" for ks
        using Cons.IH [of ks] Inl by simp
      with Inl Inr show ?thesis by (cases js) auto
    next
      case r: (Inr ks)
      have "map f cs = map Inr ks' \<longleftrightarrow> ks = ks'" for ks'
        using Cons.IH [of ks'] r by simp
      with r Inr show ?thesis by (cases js) auto
    qed
  qed
qed

lemma astype_int_Inl: "astype_int f cs = Inl e \<Longrightarrow> \<exists>c \<in> set cs. f c = Inl e"
  by (induction cs) (auto split: sum.splits)

lemma astype_int_fails: "\<exists>c \<in> set cs. isl (f c) \<Longrightarrow> isl (astype_int f cs)"
proof (induction cs)
  case Nil
  then show ?case by simp
next
  case (Cons c cs)
  show ?case
  proof (cases "f c")
    case (Inl e)
    then show ?thesis by simp
  next
    case (Inr i)
    with Cons.prems have "\<exists>c \<in> set cs. isl (f c)" by auto
    then have "isl (astype_int f cs)" by (rule Cons.IH)
    with Inr show ?thesis by (auto split: sum.splits)
  qed
qed

lemma astype_int_succeeds:
  "\<forall>c \<in> set cs. \<not> isl (f c) \<Longrightarrow> \<exists>js. astype_int f cs = Inr js"
  by (induction cs) (auto split: sum.splits)

lemma normalizer_Inl:
  "normalizer to_int get csv = Inl e \<Longrightarrow> \<exists>r \<in> set csv. to_int (remote_ratio r) = Inl e"
  by (auto simp: normalizer_def split: sum.splits dest!: astype_int_Inl)

lemma normalizer_Inr:
  assumes "normalizer to_int get csv = Inr df"
  shows "length df = length csv"
    and "i < length csv \<Longrightarrow> to_int (remote_ratio (csv ! i)) = Inr (remote_ratio (df ! i))"
    and "i < length csv \<Longrightarrow> df ! i = normalize_row get (csv ! i) (remote_ratio (df ! i))"
proof -
  from assms obtain js where js: "astype_int to_int (map remote_ratio csv) = Inr js"
    and df: "df = map2 (normalize_row get) csv js"
    by (auto simp: normalizer_def split: sum.splits)
  from js have m: "map to_int (map remote_ratio csv) = map Inr js"
    by (simp add: astype_int_Inr)
  then have len: "length js = length csv"
    by (metis length_map)
  show "length df = length csv"
    by (simp add: df len)
  { assume i: "i < length csv"
    from m i len have "to_int (remote_ratio (csv ! i)) = Inr (js ! i)"
      by (metis length_map nth_map)
    moreover from i len have "df ! i = normalize_row get (csv ! i) (js ! i)"
      by (simp add: df)
    moreover have "remote_ratio (normalize_row get (csv ! i) (js ! i)) = js ! i"
      by (simp add: normalize_row_def)
    ultimately show "to_int (remote_ratio (csv ! i)) = Inr (remote_ratio (df ! i))"
      and "df ! i = normalize_row get (csv ! i) (remote_ratio (df ! i))"
      by simp_all }
qed

lemma example_normalizer: "normalizer example_to_int example_get example_csv = Inr example_df"
  by (simp add: normalizer_def example_csv_def example_df_def example_to_int_def
      example_get_def normalize_row_def example_row_us_def example_row_fr_def
      example_row_zz_def experience_level_map_def company_size_map_def
      employment_type_map_def iso2_to_iso3_def)

section \<open>Facts about the filters\<close>

lemma series_and_map: "series_and (map f xs) (map g xs) = map (\<lambda>x. f x \<and> g x) xs"
  by (induction xs) (simp_all add: series_and_def)

lemma filter_mask_eq: "filter_mask df p = map (satisfies p) df"
  unfolding filter_mask_def isin_def series_ge_def series_le_def
  by (simp add: series_and_map satisfies_def)

lemma getitem_mask_map: "getitem_mask (map P xs) xs = filter P xs"
  by (induction xs) (simp_all add: getitem_mask_def)

lemma df_filtered_eq: "df_filtered df p = filter (satisfies p) df"
  by (simp add: df_filtered_def filter_mask_eq getitem_mask_map)

lemma count_list_filter: "count_list (filter P xs) x = (if P x then count_list xs x else 0)"
  by (induction xs) auto

lemma set_unique: "set (unique xs) = set xs"
  by (induction xs) auto

lemma example_default_filters:
  "default_filters example_df =
     \<lparr>exp_filter = [Some ''Senior'', Some ''Mid'', Some ''Junior''],
      size_filter = [Some ''Medium'', Some ''Large'', Some ''Small''],
      remote_filter = (0, 100),
      country_filter = [''US'', ''FR'', ''ZZ''],
      year_filter = [2020, 2021]\<rparr>"
  by (simp add: default_filters_def example_df_def example_row_us_def example_row_fr_def
      example_row_zz_def)

lemma example_filters_narrow_eq:
  "example_filters_narrow =
     \<lparr>exp_filter = [Some ''Senior'', Some ''Mid'', Some ''Junior''],
      size_filter = [Some ''Medium'', Some ''Large'', Some ''Small''],
      remote_filter = (0, 60),
      country_filter = [''US'', ''FR'', ''ZZ''],
      year_filter = [2020, 2021]\<rparr>"
  unfolding example_filters_narrow_def example_default_filters by simp

lemma example_filters_none_eq:
  "example_filters_none =
     \<lparr>exp_filter = [],
      size_filter = [Some ''Medium'', Some ''Large'', Some ''Small''],
      remote_filter = (0, 100),
      country_filter = [''US'', ''FR'', ''ZZ''],
      year_filter = [2020, 2021]\<rparr>"
  unfolding example_filters_none_def example_default_filters by simp

lemma example_narrow: "df_filtered example_df example_filters_narrow = [example_row_us, example_row_zz]"
  by (simp add: df_filtered_eq example_filters_narrow_eq satisfies_def
      example_df_def example_row_us_def example_row_fr_def example_row_zz_def)

section \<open>The filter engine\<close>

text \<open>
  Claim C2. Whatever the five widgets hold, every row of \<open>df_filtered\<close> satisfies the
  five predicates (its experience level and its company size are among the allowed ones,
  its remote ratio lies between the slider's ends, its residence and its year are among
  the allowed ones); and every row of the table that satisfies them is in \<open>df_filtered\<close>
  exactly once: a row occurs in the result as often as in the table, and the result is
  the table restricted to exactly the positions whose row satisfies the predicates, each
  position taken once, in table order.
\<close>

theorem filter_sound_complete:
  "(\<forall>r \<in> set (df_filtered df p). satisfies p r) \<and>
   (\<forall>r. satisfies p r \<longrightarrow> count_list (df_filtered df p) r = count_list df r) \<and>
   df_filtered df p = nths df {i. i < length df \<and> satisfies p (df ! i)}"
  by (simp add: df_filtered_eq count_list_filter filter_eq_nths [symmetric])

theorem filter_sound_complete_witness:
  "example_row_us \<in> set (df_filtered example_df example_filters_narrow) \<and>
   satisfies example_filters_narrow example_row_us \<and>
   count_list (df_filtered example_df example_filters_narrow) example_row_us = 1 \<and>
   count_list example_df example_row_us = 1 \<and>
   \<not> satisfies example_filters_narrow example_row_fr \<and>
   example_row_fr \<notin> set (df_filtered example_df example_filters_narrow)"
proof -
  have in_res: "example_row_us \<in> set (df_filtered example_df example_filters_narrow)"
    by (simp add: example_narrow)
  have one: "count_list example_df example_row_us = 1"
    by (simp add: example_df_def example_row_us_def example_row_fr_def example_row_zz_def)
  have fr: "example_row_fr \<notin> set (df_filtered example_df example_filters_narrow)"
    by (simp add: example_narrow example_row_us_def example_row_fr_def example_row_zz_def)
  have nfr: "\<not> satisfies example_filters_narrow example_row_fr"
    by (simp add: satisfies_def example_filters_narrow_eq example_row_fr_def)
  note fsc = filter_sound_complete [of example_df example_filters_narrow]
  from fsc in_res have sat: "satisfies example_filters_narrow example_row_us" by blast
  with fsc have "count_list (df_filtered example_df example_filters_narrow) example_row_us =
      count_list example_df example_row_us"
    by blast
  with one have "count_list (df_filtered example_df example_filters_narrow) example_row_us = 1"
    by simp
  with in_res sat one fr nfr show ?thesis by simp
qed

text \<open>
  Claim C4. With every allowed set equal to the values observed in the table and the
  slider at (0, 100), \<open>df_filtered\<close> is the whole table, in its order. The table is one of
  the data model, whose \<open>remote_ratio\<close> is an integer between 0 and 100: that is the last
  hypothesis, and the slider's ends on line 46 are the ends of that range.
\<close>

theorem default_filters_keep_table:
  assumes "set (exp_filter p) = experience_level ` set df"
    and "set (size_filter p) = company_size ` set df"
    and "remote_filter p = (0, 100)"
    and "set (country_filter p) = employee_residence ` set df"
    and "set (year_filter p) = work_year ` set df"
    and "\<forall>r \<in> set df. 0 \<le> remote_ratio r \<and> remote_ratio r \<le> 100"
  shows "df_filtered df p = df"
  using assms by (simp add: df_filtered_eq satisfies_def)

theorem default_filters_keep_table_witness:
  "set (exp_filter (default_filters example_df)) = experience_level ` set example_df \<and>
   set (size_filter (default_filters example_df)) = company_size ` set example_df \<and>
   remote_filter (default_filters example_df) = (0, 100) \<and>
   set (country_filter (default_filters example_df)) = employee_residence ` set example_df \<and>
   set (year_filter (default_filters example_df)) = work_year ` set example_df \<and>
   map remote_ratio example_df = [0, 100, 50] \<and>
   df_filtered example_df (default_filters example_df) = example_df"
proof -
  have h: "set (exp_filter (default_filters example_df)) = experience_level ` set example_df"
    "set (size_filter (default_filters example_df)) = company_size ` set example_df"
    "remote_filter (default_filters example_df) = (0, 100)"
    "set (country_filter (default_filters example_df)) = employee_residence ` set example_df"
    "set (year_filter (default_filters example_df)) = work_year ` set example_df"
    by (simp_all add: default_filters_def set_unique)
  have r: "\<forall>r \<in> set example_df. 0 \<le> remote_ratio r \<and> remote_ratio r \<le> 100"
    by (simp add: example_df_def example_row_us_def example_row_fr_def example_row_zz_def)
  have c: "map remote_ratio example_df = [0, 100, 50]"
    by (simp add: example_df_def example_row_us_def example_row_fr_def example_row_zz_def)
  from default_filters_keep_table [OF h r] h c show ?thesis by simp
qed

text \<open>
  Claim C10. The filter engine is monotone: when each allowed set of \<open>p\<close> is a subset
  of the one of \<open>q\<close> and the slider range of \<open>p\<close> is contained in the one of \<open>q\<close>,
  the rows selected by \<open>p\<close> are a subsequence of the rows selected by \<open>q\<close>.
\<close>

theorem filter_monotone:
  assumes "set (exp_filter p) \<subseteq> set (exp_filter q)"
    and "set (size_filter p) \<subseteq> set (size_filter q)"
    and "{fst (remote_filter p) .. snd (remote_filter p)} \<subseteq> {fst (remote_filter q) .. snd (remote_filter q)}"
    and "set (country_filter p) \<subseteq> set (country_filter q)"
    and "set (year_filter p) \<subseteq> set (year_filter q)"
  shows "subseq (df_filtered df p) (df_filtered df q)"
proof -
  have imp: "satisfies q r" if s: "satisfies p r" for r
  proof -
    from s have "remote_ratio r \<in> {fst (remote_filter p) .. snd (remote_filter p)}"
      by (simp add: satisfies_def)
    with assms(3) have "remote_ratio r \<in> {fst (remote_filter q) .. snd (remote_filter q)}"
      by blast
    with s assms(1,2,4,5) show ?thesis
      by (auto simp: satisfies_def)
  qed
  have "filter (satisfies p) df = filter (satisfies p) (filter (satisfies q) df)"
    using imp by (auto intro: filter_cong)
  then show ?thesis
    by (simp add: df_filtered_eq del: filter_filter)
qed

theorem filter_monotone_witness:
  "set (exp_filter example_filters_narrow) \<subseteq> set (exp_filter (default_filters example_df)) \<and>
   set (size_filter example_filters_narrow) \<subseteq> set (size_filter (default_filters example_df)) \<and>
   {fst (remote_filter example_filters_narrow) .. snd (remote_filter example_filters_narrow)}
     \<subseteq> {fst (remote_filter (default_filters example_df)) .. snd (remote_filter (default_filters example_df))} \<and>
   set (country_filter example_filters_narrow) \<subseteq> set (country_filter (default_filters example_df)) \<and>
   set (year_filter example_filters_narrow) \<subseteq> set (year_filter (default_filters example_df)) \<and>
   subseq (df_filtered example_df example_filters_narrow) (df_filtered example_df (default_filters example_df))"
proof -
  have h: "set (exp_filter example_filters_narrow) \<subseteq> set (exp_filter (default_filters example_df))"
   "set (size_filter example_filters_narrow) \<subseteq> set (size_filter (default_filters example_df))"
   "{fst (remote_filter example_filters_narrow) .. snd (remote_filter example_filters_narrow)}
     \<subseteq> {fst (remote_filter (default_filters example_df)) .. snd (remote_filter (default_filters example_df))}"
   "set (country_filter example_filters_narrow) \<subseteq> set (country_filter (default_filters example_df))"
   "set (year_filter example_filters_narrow) \<subseteq> set (year_filter (default_filters example_df))"
    by (simp_all add: example_filters_narrow_eq example_default_filters)
  from filter_monotone [OF h] h show ?thesis by simp
qed

section \<open>Facts about the script\<close>

lemma apply_filters_eq:
  "apply_filters [\<lparr>rows = df, remote_group = None\<rparr>] 0 p =
     ([\<lparr>rows = df, remote_group = None\<rparr>, \<lparr>rows = df_filtered df p, remote_group = None\<rparr>,
       \<lparr>rows = df_filtered df p, remote_group = None\<rparr>], 2)"
  by (simp add: apply_filters_def boolean_index_def copy_def df_filtered_def)

lemma dashboard_eq:
  "dashboard to_int get series_sum group_sum csv p =
     (case normalizer to_int get csv of
        Inl e \<Rightarrow> Inl e
      | Inr df \<Rightarrow>
          Inr \<lparr>summary = summary_markdown series_sum (df_filtered df p),
               chart_year = mean_salary_year group_sum (df_filtered df p),
               chart_company = groupby_mean group_sum (groupby company_size (df_filtered df p)),
               chart_country = groupby_mean group_sum (groupby country_iso3 (df_filtered df p)),
               table = \<lparr>rows = df_filtered df p,
                        remote_group = Some (map remote_group_of (map remote_ratio (df_filtered df p)))\<rparr>\<rparr>)"
  by (simp add: dashboard_def apply_filters_eq add_remote_group_def setitem_remote_group_def
      split: sum.splits)

lemma dashboard_isl: "isl (dashboard to_int get series_sum group_sum csv p) = isl (normalizer to_int get csv)"
  by (simp add: dashboard_eq split: sum.splits)

lemma summary_markdown_Nil:
  "summary_markdown series_sum [] =
     [''- **Salaire moyen** : $nan'', ''- **Salaire minimum** : $nan'',
      ''- **Salaire maximum** : $nan'']"
  by (simp add: summary_markdown_def series_mean_def series_min_def series_max_def
      format_comma_0f_def)

lemma example_none: "df_filtered example_df example_filters_none = []"
  by (simp add: df_filtered_eq example_filters_none_eq satisfies_def)

lemma normalizer_succeeds:
  assumes "\<forall>r \<in> set csv. \<not> isl (to_int (remote_ratio r))"
  shows "\<exists>df. normalizer to_int get csv = Inr df"
proof -
  from assms have "\<forall>c \<in> set (map remote_ratio csv). \<not> isl (to_int c)" by simp
  then obtain js where "astype_int to_int (map remote_ratio csv) = Inr js"
    using astype_int_succeeds by blast
  then show ?thesis by (simp add: normalizer_def)
qed

lemma normalizer_fails:
  assumes "\<exists>r \<in> set csv. isl (to_int (remote_ratio r))"
  shows "isl (normalizer to_int get csv)"
proof -
  from assms have "\<exists>c \<in> set (map remote_ratio csv). isl (to_int c)" by simp
  then have "isl (astype_int to_int (map remote_ratio csv))" by (rule astype_int_fails)
  then show ?thesis by (auto simp: normalizer_def split: sum.splits)
qed

lemma normalizer_columns:
  assumes "normalizer to_int get csv = Inr df"
  shows "map experience_level df = map (experience_level_map \<circ> experience_level) csv"
    and "map company_size df = map (company_size_map \<circ> company_size) csv"
    and "map employment_type df = map (employment_type_map \<circ> employment_type) csv"
    and "map country_iso3 df = map (iso2_to_iso3 get \<circ> employee_residence) csv"
    and "map work_year df = map work_year csv"
    and "map salary_in_usd df = map salary_in_usd csv"
    and "map employee_residence df = map employee_residence csv"
proof -
  note n = normalizer_Inr [OF assms]
  show "map experience_level df = map (experience_level_map \<circ> experience_level) csv"
    by (rule nth_equalityI) (simp_all add: n(1), subst n(3), simp_all add: normalize_row_def n(1))
  show "map company_size df = map (company_size_map \<circ> company_size) csv"
    by (rule nth_equalityI) (simp_all add: n(1), subst n(3), simp_all add: normalize_row_def n(1))
  show "map employment_type df = map (employment_type_map \<circ> employment_type) csv"
    by (rule nth_equalityI) (simp_all add: n(1), subst n(3), simp_all add: normalize_row_def n(1))
  show "map country_iso3 df = map (iso2_to_iso3 get \<circ> employee_residence) csv"
    by (rule nth_equalityI) (simp_all add: n(1), subst n(3), simp_all add: normalize_row_def n(1))
  show "map work_year df = map work_year csv"
    by (rule nth_equalityI) (simp_all add: n(1), subst n(3), simp_all add: normalize_row_def n(1))
  show "map salary_in_usd df = map salary_in_usd csv"
    by (rule nth_equalityI) (simp_all add: n(1), subst n(3), simp_all add: normalize_row_def n(1))
  show "map employee_residence df = map employee_residence csv"
    by (rule nth_equalityI) (simp_all add: n(1), subst n(3), simp_all add: normalize_row_def n(1))
qed

lemma remote_group_of_eq:
  "remote_group_of x =
     (if 0 < x \<and> x \<le> 25 then Some ''0-25''
      else if 25 < x \<and> x \<le> 50 then Some ''26-50''
      else if 50 < x \<and> x \<le> 75 then Some ''51-75''
      else if 75 < x \<and> x \<le> 100 then Some ''76-100''
      else None)"
  by (simp add: remote_group_of_def)

section \<open>The scalar summary of an empty selection\<close>

text \<open>
  Claim C1, as stated: when no row passes the filters, the scalar summary signals an
  error or hands the caller a result it checks, and no NaN reaches the formatted lines.
  Lines 66 to 68 pass the results of \<open>mean\<close>, \<open>min\<close> and \<open>max\<close> straight into the
  format strings. With no experience level selected the run of the script ends normally
  and each of the three lines shows \<open>$nan\<close>.
\<close>

theorem empty_summary_shows_nan:
  "df_filtered example_df example_filters_none = [] \<and>
   map_sum id summary (dashboard example_to_int example_get example_sum example_sum example_csv example_filters_none) =
     Inr [''- **Salaire moyen** : $nan'', ''- **Salaire minimum** : $nan'',
          ''- **Salaire maximum** : $nan'']"
  by (simp add: dashboard_eq example_normalizer example_none summary_markdown_Nil)

text \<open>
  Claim C1, amended: when no row passes the filters, the scalar summary raises nothing;
  mean, minimum and maximum are each NaN, and the run of the script ends normally with
  the three formatted lines showing \<open>$nan\<close>.
\<close>

theorem empty_summary_is_nan:
  assumes "normalizer to_int get csv = Inr df" and "df_filtered df p = []"
  shows "series_mean series_sum (map salary_in_usd (df_filtered df p)) = NaN \<and>
         series_min (map salary_in_usd (df_filtered df p)) = NaN \<and>
         series_max (map salary_in_usd (df_filtered df p)) = NaN \<and>
         (\<exists>pg. dashboard to_int get series_sum group_sum csv p = Inr pg \<and>
            summary pg = [''- **Salaire moyen** : $nan'', ''- **Salaire minimum** : $nan'',
                          ''- **Salaire maximum** : $nan''])"
  using assms
  by (simp add: dashboard_eq summary_markdown_Nil series_mean_def series_min_def series_max_def)

theorem empty_summary_is_nan_witness:
  "normalizer example_to_int example_get example_csv = Inr example_df \<and>
   df_filtered example_df example_filters_none = [] \<and>
   series_mean example_sum (map salary_in_usd (df_filtered example_df example_filters_none)) = NaN \<and>
   (\<exists>pg. dashboard example_to_int example_get example_sum example_sum example_csv example_filters_none = Inr pg \<and>
           summary pg = [''- **Salaire moyen** : $nan'', ''- **Salaire minimum** : $nan'',
                         ''- **Salaire maximum** : $nan''])"
  using empty_summary_is_nan [OF example_normalizer example_none] example_normalizer example_none
  by simp

section \<open>Remote-ratio buckets\<close>

text \<open>
  Claim C3. With the edges 0, 25, 50, 75, 100 and intervals open on the left, a remote
  ratio of 0 gets none of the four labels (its \<open>remote_group\<close> is missing), 25 gets
  \<open>0-25\<close> and 26 gets \<open>26-50\<close>.
\<close>

theorem remote_group_buckets:
  "remote_group_of 0 = None \<and> remote_group_of 25 = Some ''0-25'' \<and>
   remote_group_of 26 = Some ''26-50''"
  by (simp add: remote_group_of_def)

section \<open>The normaliser\<close>

lemma known_codes:
  "experience_level_map ''EN'' = Some ''Junior''" "experience_level_map ''MI'' = Some ''Mid''"
  "experience_level_map ''SE'' = Some ''Senior''" "experience_level_map ''EX'' = Some ''Executive''"
  "company_size_map ''S'' = Some ''Small''" "company_size_map ''M'' = Some ''Medium''"
  "company_size_map ''L'' = Some ''Large''"
  "employment_type_map ''FT'' = Some ''Full-time''" "employment_type_map ''PT'' = Some ''Part-time''"
  "employment_type_map ''CT'' = Some ''Contract''" "employment_type_map ''FL'' = Some ''Freelance''"
  by (simp_all add: experience_level_map_def company_size_map_def employment_type_map_def)

lemma other_codes:
  "c \<notin> {''EN'', ''MI'', ''SE'', ''EX''} \<Longrightarrow> experience_level_map c = None"
  "c \<notin> {''S'', ''M'', ''L''} \<Longrightarrow> company_size_map c = None"
  "c \<notin> {''FT'', ''PT'', ''CT'', ''FL''} \<Longrightarrow> employment_type_map c = None"
  by (simp_all add: experience_level_map_def company_size_map_def employment_type_map_def)

lemma dashboard_Inl: "normalizer to_int get csv = Inl e \<Longrightarrow> dashboard to_int get series_sum group_sum csv p = Inl e"
  by (simp add: dashboard_eq)

text \<open>
  Claim C5. The normaliser maps every documented code to its label (EN, MI, SE, EX to
  Junior, Mid, Senior, Executive; S, M, L to Small, Medium, Large; FT, PT, CT, FL to
  Full-time, Part-time, Contract, Freelance) and any other code to a missing label, and
  no code makes it fail: the three label columns of the normalised table are the
  dictionaries applied to the codes, and the normalisation succeeds whenever every
  \<open>remote_ratio\<close> cell converts.
\<close>

theorem normalizer_labels:
  "experience_level_map ''EN'' = Some ''Junior'' \<and> experience_level_map ''MI'' = Some ''Mid'' \<and>
   experience_level_map ''SE'' = Some ''Senior'' \<and> experience_level_map ''EX'' = Some ''Executive'' \<and>
   company_size_map ''S'' = Some ''Small'' \<and> company_size_map ''M'' = Some ''Medium'' \<and>
   company_size_map ''L'' = Some ''Large'' \<and>
   employment_type_map ''FT'' = Some ''Full-time'' \<and> employment_type_map ''PT'' = Some ''Part-time'' \<and>
   employment_type_map ''CT'' = Some ''Contract'' \<and> employment_type_map ''FL'' = Some ''Freelance'' \<and>
   (c \<notin> {''EN'', ''MI'', ''SE'', ''EX''} \<longrightarrow> experience_level_map c = None) \<and>
   (c \<notin> {''S'', ''M'', ''L''} \<longrightarrow> company_size_map c = None) \<and>
   (c \<notin> {''FT'', ''PT'', ''CT'', ''FL''} \<longrightarrow> employment_type_map c = None) \<and>
   (\<forall>df. normalizer to_int get csv = Inr df \<longrightarrow>
      map experience_level df = map (experience_level_map \<circ> experience_level) csv \<and>
      map company_size df = map (company_size_map \<circ> company_size) csv \<and>
      map employment_type df = map (employment_type_map \<circ> employment_type) csv) \<and>
   ((\<forall>r \<in> set csv. \<not> isl (to_int (remote_ratio r))) \<longrightarrow>
      (\<exists>df. normalizer to_int get csv = Inr df))"
  apply (intro conjI impI allI)
                  apply (rule known_codes)+
        apply (erule other_codes)+
     apply (erule normalizer_columns)+
  apply (erule normalizer_succeeds)
  done

theorem normalizer_labels_witness:
  "''XX'' \<notin> {''EN'', ''MI'', ''SE'', ''EX''} \<and> experience_level_map ''XX'' = None \<and>
   ''XX'' \<notin> {''S'', ''M'', ''L''} \<and> company_size_map ''XX'' = None \<and>
   ''XX'' \<notin> {''FT'', ''PT'', ''CT'', ''FL''} \<and> employment_type_map ''XX'' = None \<and>
   map (isl \<circ> example_to_int \<circ> remote_ratio) example_csv = [False, False, False] \<and>
   (\<exists>df. normalizer example_to_int example_get example_csv = Inr df \<and>
      map company_size df = map (company_size_map \<circ> company_size) example_csv)"
proof -
  note t = normalizer_labels [of "''XX''" example_to_int example_get example_csv]
  have a: "''XX'' \<notin> {''EN'', ''MI'', ''SE'', ''EX''}" "''XX'' \<notin> {''S'', ''M'', ''L''}"
    "''XX'' \<notin> {''FT'', ''PT'', ''CT'', ''FL''}"
    by simp_all
  have b: "\<forall>r \<in> set example_csv. \<not> isl (example_to_int (remote_ratio r))"
    by (simp add: example_csv_def example_to_int_def)
  from t have "''XX'' \<notin> {''EN'', ''MI'', ''SE'', ''EX''} \<longrightarrow> experience_level_map ''XX'' = None"
    by (elim conjE)
  with a have e: "experience_level_map ''XX'' = None" by (rule_tac mp)
  from t have "''XX'' \<notin> {''S'', ''M'', ''L''} \<longrightarrow> company_size_map ''XX'' = None"
    by (elim conjE)
  with a have s: "company_size_map ''XX'' = None" by (rule_tac mp)
  from t have "''XX'' \<notin> {''FT'', ''PT'', ''CT'', ''FL''} \<longrightarrow> employment_type_map ''XX'' = None"
    by (elim conjE)
  with a have m: "employment_type_map ''XX'' = None" by (rule_tac mp)
  from t have "(\<forall>r \<in> set example_csv. \<not> isl (example_to_int (remote_ratio r))) \<longrightarrow>
      (\<exists>df. normalizer example_to_int example_get example_csv = Inr df)"
    by (elim conjE)
  with b obtain df where df: "normalizer example_to_int example_get example_csv = Inr df"
    by blast
  from t have "\<forall>df. normalizer example_to_int example_get example_csv = Inr df \<longrightarrow>
      map experience_level df = map (experience_level_map \<circ> experience_level) example_csv \<and>
      map company_size df = map (company_size_map \<circ> company_size) example_csv \<and>
      map employment_type df = map (employment_type_map \<circ> employment_type) example_csv"
    by (elim conjE)
  with df have "map company_size df = map (company_size_map \<circ> company_size) example_csv"
    by blast
  with df have "\<exists>df. normalizer example_to_int example_get example_csv = Inr df \<and>
      map company_size df = map (company_size_map \<circ> company_size) example_csv"
    by blast
  moreover have "map (isl \<circ> example_to_int \<circ> remote_ratio) example_csv = [False, False, False]"
    by (simp add: example_csv_def example_to_int_def)
  ultimately show ?thesis using a e s m by (intro conjI)
qed

text \<open>
  Claim C8. If some \<open>remote_ratio\<close> cell cannot be converted to an integer, the
  normalisation fails with the exception of such a cell and the run of the script ends
  with it; if every cell converts, the normalisation succeeds, keeps every row, and every
  \<open>remote_ratio\<close> is the integer its cell converts to.
\<close>

theorem remote_ratio_cast:
  "((\<exists>r \<in> set csv. isl (to_int (remote_ratio r))) \<longrightarrow>
      (\<exists>e. normalizer to_int get csv = Inl e \<and>
           (\<exists>r \<in> set csv. to_int (remote_ratio r) = Inl e) \<and>
           dashboard to_int get series_sum group_sum csv p = Inl e)) \<and>
   ((\<forall>r \<in> set csv. \<not> isl (to_int (remote_ratio r))) \<longrightarrow>
      (\<exists>df. normalizer to_int get csv = Inr df \<and> length df = length csv \<and>
            (\<forall>i < length csv. to_int (remote_ratio (csv ! i)) = Inr (remote_ratio (df ! i))) \<and>
            \<not> isl (dashboard to_int get series_sum group_sum csv p)))"
proof (intro conjI impI)
  assume "\<exists>r \<in> set csv. isl (to_int (remote_ratio r))"
  then have "isl (normalizer to_int get csv)"
    by (rule normalizer_fails)
  then obtain e where e: "normalizer to_int get csv = Inl e"
    by (cases "normalizer to_int get csv") auto
  from e have "\<exists>r \<in> set csv. to_int (remote_ratio r) = Inl e"
    by (rule normalizer_Inl)
  moreover from e have "dashboard to_int get series_sum group_sum csv p = Inl e"
    by (rule dashboard_Inl)
  ultimately show "\<exists>e. normalizer to_int get csv = Inl e \<and>
      (\<exists>r \<in> set csv. to_int (remote_ratio r) = Inl e) \<and> dashboard to_int get series_sum group_sum csv p = Inl e"
    using e by blast
next
  assume "\<forall>r \<in> set csv. \<not> isl (to_int (remote_ratio r))"
  then obtain df where df: "normalizer to_int get csv = Inr df"
    using normalizer_succeeds by blast
  have "length df = length csv"
    by (rule normalizer_Inr(1) [OF df])
  moreover have "\<forall>i < length csv. to_int (remote_ratio (csv ! i)) = Inr (remote_ratio (df ! i))"
    using normalizer_Inr(2) [OF df] by blast
  moreover have "\<not> isl (dashboard to_int get series_sum group_sum csv p)"
    by (simp add: dashboard_isl df)
  ultimately show "\<exists>df. normalizer to_int get csv = Inr df \<and> length df = length csv \<and>
      (\<forall>i < length csv. to_int (remote_ratio (csv ! i)) = Inr (remote_ratio (df ! i))) \<and>
      \<not> isl (dashboard to_int get series_sum group_sum csv p)"
    using df by blast
qed

theorem remote_ratio_cast_witness:
  "(\<exists>r \<in> set example_csv_bad. isl (example_to_int (remote_ratio r))) \<and>
   (\<exists>e. normalizer example_to_int example_get example_csv_bad = Inl e \<and>
        dashboard example_to_int example_get example_sum example_sum example_csv_bad example_filters_narrow = Inl e) \<and>
   map (isl \<circ> example_to_int \<circ> remote_ratio) example_csv = [False, False, False] \<and>
   (\<exists>df. normalizer example_to_int example_get example_csv = Inr df \<and>
         length df = length example_csv \<and>
         example_to_int (remote_ratio (example_csv ! 2)) = Inr (remote_ratio (df ! 2)) \<and>
         \<not> isl (dashboard example_to_int example_get example_sum example_sum example_csv example_filters_narrow))"
proof -
  have bad: "\<exists>r \<in> set example_csv_bad. isl (example_to_int (remote_ratio r))"
    by (simp add: example_csv_bad_def example_csv_def example_to_int_def)
  have good: "\<forall>r \<in> set example_csv. \<not> isl (example_to_int (remote_ratio r))"
    by (simp add: example_csv_def example_to_int_def)
  have len: "(2::nat) < length example_csv"
    by (simp add: example_csv_def)
  from bad remote_ratio_cast [where csv = example_csv_bad and to_int = example_to_int
      and get = example_get and series_sum = example_sum and group_sum = example_sum
      and p = example_filters_narrow]
  have 1: "\<exists>e. normalizer example_to_int example_get example_csv_bad = Inl e \<and>
        dashboard example_to_int example_get example_sum example_sum example_csv_bad example_filters_narrow = Inl e"
    by blast
  from good remote_ratio_cast [where csv = example_csv and to_int = example_to_int
      and get = example_get and series_sum = example_sum and group_sum = example_sum
      and p = example_filters_narrow]
  obtain df where "normalizer example_to_int example_get example_csv = Inr df"
    "length df = length example_csv"
    "\<forall>i < length example_csv. example_to_int (remote_ratio (example_csv ! i)) = Inr (remote_ratio (df ! i))"
    "\<not> isl (dashboard example_to_int example_get example_sum example_sum example_csv example_filters_narrow)"
    by blast
  with len have 2: "\<exists>df. normalizer example_to_int example_get example_csv = Inr df \<and>
         length df = length example_csv \<and>
         example_to_int (remote_ratio (example_csv ! 2)) = Inr (remote_ratio (df ! 2)) \<and>
         \<not> isl (dashboard example_to_int example_get example_sum example_sum example_csv example_filters_narrow)"
    by blast
  have cells: "map (isl \<circ> example_to_int \<circ> remote_ratio) example_csv = [False, False, False]"
    by (simp add: example_csv_def example_to_int_def)
  from bad 1 cells 2 show ?thesis by (intro conjI)
qed

section \<open>The filtered view and the table\<close>

text \<open>
  The assignment of line 103 changes the object it addresses: addressed to the table
  itself, it would change the table.
\<close>

lemma setitem_remote_group_in_place:
  "a < length st \<Longrightarrow> remote_group (setitem_remote_group st a col ! a) = Some col"
  by (simp add: setitem_remote_group_def)

lemma add_remote_group_changes_object:
  assumes "a < length st" and "remote_group (st ! a) = None"
  shows "add_remote_group st a ! a \<noteq> st ! a"
proof
  assume "add_remote_group st a ! a = st ! a"
  then have "remote_group (add_remote_group st a ! a) = remote_group (st ! a)"
    by simp
  with assms show False
    by (simp add: add_remote_group_def setitem_remote_group_in_place)
qed

text \<open>
  Claim C9. Whatever the widgets hold, selecting the rows and then assigning the column
  \<open>remote_group\<close> leaves the object \<open>df\<close> names as it was, every field of every row,
  and every other object that existed before: \<open>df_filtered\<close> names an object allocated
  by the selection, and that object alone receives the column.
\<close>

theorem filtered_view_frame:
  assumes "df < length st"
  shows "(case filtered_view st df p of (st', dff) \<Rightarrow>
           st' ! df = st ! df \<and> take (length st) st' = st \<and> dff \<noteq> df \<and>
           length st \<le> dff \<and> dff < length st' \<and>
           rows (st' ! dff) = df_filtered (rows (st ! df)) p \<and>
           remote_group (st' ! dff) =
             Some (map remote_group_of (map remote_ratio (df_filtered (rows (st ! df)) p))))"
  using assms
  by (simp add: filtered_view_def apply_filters_def boolean_index_def copy_def
      add_remote_group_def setitem_remote_group_def df_filtered_def nth_append)

theorem filtered_view_frame_witness:
  "(0::nat) < length example_store \<and>
   fst (filtered_view example_store 0 example_filters_narrow) ! 0 = example_store ! 0 \<and>
   snd (filtered_view example_store 0 example_filters_narrow) \<noteq> 0 \<and>
   rows (fst (filtered_view example_store 0 example_filters_narrow) !
           snd (filtered_view example_store 0 example_filters_narrow)) =
     [example_row_us, example_row_zz]"
proof -
  have l: "(0::nat) < length example_store"
    by (simp add: example_store_def)
  have r: "rows (example_store ! 0) = example_df"
    by (simp add: example_store_def)
  from filtered_view_frame [OF l, of example_filters_narrow] l r example_narrow
  show ?thesis
    by (simp add: case_prod_beta)
qed

section \<open>Facts about floating point\<close>

lemma ilog2_bounds: "0 < n \<Longrightarrow> 2 ^ ilog2 n \<le> n \<and> n < 2 ^ Suc (ilog2 n)"
proof (induction n rule: ilog2.induct)
  case (1 n)
  show ?case
  proof (cases "n < 2")
    case True
    with "1.prems" have "n = 1" by simp
    then show ?thesis by (simp add: ilog2.simps)
  next
    case False
    then have pos: "0 < n div 2" by simp
    from "1.IH" [OF False pos]
    have lo: "2 ^ ilog2 (n div 2) \<le> n div 2" and hi: "n div 2 < 2 ^ Suc (ilog2 (n div 2))"
      by simp_all
    have eq: "ilog2 n = Suc (ilog2 (n div 2))"
      using False by (subst ilog2.simps) simp
    from lo have "2 * 2 ^ ilog2 (n div 2) \<le> n" by linarith
    moreover from hi have "n < 2 * 2 ^ Suc (ilog2 (n div 2))" by linarith
    ultimately show ?thesis by (simp add: eq)
  qed
qed


lemma round_half_even_of_int [simp]: "round_half_even (of_int i) = i"
  by (simp add: round_half_even_def)

lemma float64_exponent_bounds:
  assumes "0 < a"
  shows "2 powi float64_exponent a \<le> a \<and> a < 2 powi (float64_exponent a + 1)"
proof (cases "1 \<le> a")
  case True
  let ?n = "nat \<lfloor>a\<rfloor>"
  from True have n: "0 < ?n" by simp
  note b = ilog2_bounds [OF n]
  have e: "float64_exponent a = int (ilog2 ?n)"
    using True by (simp add: float64_exponent_def)
  from b have "(2::rat) ^ ilog2 ?n \<le> of_nat ?n"
    by (metis of_nat_le_iff of_nat_numeral of_nat_power)
  also have "(of_nat ?n :: rat) = of_int \<lfloor>a\<rfloor>" using True by simp
  also have "\<dots> \<le> a" by simp
  finally have lo: "(2::rat) ^ ilog2 ?n \<le> a" .
  from b have "?n + 1 \<le> 2 ^ Suc (ilog2 ?n)" by simp
  then have "(of_nat (?n + 1) :: rat) \<le> of_nat (2 ^ Suc (ilog2 ?n))"
    by (simp only: of_nat_le_iff)
  then have "of_int \<lfloor>a\<rfloor> + 1 \<le> (2::rat) ^ Suc (ilog2 ?n)"
    using True by simp
  moreover have "a < of_int \<lfloor>a\<rfloor> + 1" by linarith
  ultimately have hi: "a < (2::rat) ^ Suc (ilog2 ?n)" by linarith
  from lo hi show ?thesis
    by (simp add: e power_int_def nat_add_distrib)
next
  case False
  with assms have a1: "a < 1" "1 < 1 / a" by (simp_all add: field_simps)
  define c where "c = nat \<lceil>1 / a\<rceil>"
  define k where "k = ilog2 (c - 1)"
  have c2: "2 \<le> c" unfolding c_def using a1(2) by linarith
  then have n: "0 < c - 1" by linarith
  from ilog2_bounds [OF n] have b: "2 ^ k \<le> c - 1" "c - 1 < 2 ^ Suc k"
    by (simp_all add: k_def)
  have e: "float64_exponent a = - int (Suc k)"
    using False by (simp add: float64_exponent_def k_def c_def)
  have "0 \<le> \<lceil>1 / a\<rceil>" using a1(2) by linarith
  then have cc: "(of_nat c :: rat) = of_int \<lceil>1 / a\<rceil>" by (simp add: c_def)
  from b(2) c2 have "c \<le> 2 ^ Suc k" by linarith
  then have "(of_nat c :: rat) \<le> of_nat (2 ^ Suc k)" by (simp only: of_nat_le_iff)
  then have "of_int \<lceil>1 / a\<rceil> \<le> (2::rat) ^ Suc k" by (simp add: cc)
  moreover have "1 / a \<le> of_int \<lceil>1 / a\<rceil>" by simp
  ultimately have "1 / a \<le> (2::rat) ^ Suc k" by linarith
  with assms have lo: "1 / (2::rat) ^ Suc k \<le> a"
    by (simp add: field_simps)
  from b(1) c2 have "2 ^ k + 1 \<le> c" by linarith
  then have "(of_nat (2 ^ k + 1) :: rat) \<le> of_nat c" by (simp only: of_nat_le_iff)
  then have "(2::rat) ^ k + 1 \<le> of_int \<lceil>1 / a\<rceil>" by (simp add: cc)
  moreover have "of_int \<lceil>1 / a\<rceil> < 1 / a + 1" by linarith
  ultimately have "(2::rat) ^ k < 1 / a" by linarith
  with assms have hi: "a < 1 / (2::rat) ^ k"
    by (simp add: field_simps)
  have p1: "(2::rat) powi (- int (Suc k)) = 1 / 2 ^ Suc k"
    by (simp add: power_int_def inverse_eq_divide power_one_over nat_add_distrib)
  have "- int (Suc k) + 1 = - int k" by simp
  then have "(2::rat) powi (- int (Suc k) + 1) = 2 powi (- int k)" by (simp only:)
  also have "\<dots> = 1 / 2 ^ k"
    by (simp add: power_int_def inverse_eq_divide power_one_over nat_add_distrib)
  finally have p2: "(2::rat) powi (- int (Suc k) + 1) = 1 / 2 ^ k" .
  from lo hi show ?thesis
    unfolding e p1 p2 by simp
qed


lemma float64_exact:
  assumes q: "q = of_int m * 2 powi j" and m: "\<bar>m\<bar> < 2 ^ 53"
  shows "float64 q = q"
proof (cases "q = 0")
  case True
  then show ?thesis by (simp add: float64_def)
next
  case False
  define a where "a = \<bar>q\<bar>"
  define e where "e = float64_exponent a"
  define u :: rat where "u = 2 powi (e - 52)"
  from False have a: "0 < a" by (simp add: a_def)
  have u: "0 < u" by (simp add: u_def)
  have am: "a = of_int \<bar>m\<bar> * 2 powi j"
    by (simp add: a_def q abs_mult)
  have "(of_int \<bar>m\<bar> :: rat) < 2 ^ 53"
    using m by (metis of_int_less_iff of_int_numeral of_int_power)
  then have "a < 2 ^ 53 * 2 powi j"
    unfolding am by (intro mult_strict_right_mono) simp_all
  also have "\<dots> = 2 powi (j + 53)"
    by (simp add: power_int_add)
  finally have "2 powi e < (2::rat) powi (j + 53)"
    using float64_exponent_bounds [OF a] by (simp add: e_def)
  then have "e < j + 53"
    by (metis not_less one_le_numeral power_int_increasing)
  then have d: "0 \<le> j + 52 - e" by simp
  have "a / u = of_int \<bar>m\<bar> * (2 powi j / 2 powi (e - 52))"
    by (simp add: am u_def)
  also have "2 powi j / (2::rat) powi (e - 52) = 2 powi (j + 52 - e)"
    by (simp add: power_int_diff [symmetric] algebra_simps)
  also have "\<dots> = 2 ^ nat (j + 52 - e)"
    using d by (rule power_int_nonneg_exp)
  finally have "a / u = of_int (\<bar>m\<bar> * 2 ^ nat (j + 52 - e))"
    by simp
  then have "of_int (round_half_even (a / u)) = a / u"
    by (simp only: round_half_even_of_int)
  then have "float64 q = sgn q * (a / u) * u"
    using False by (simp add: float64_def Let_def a_def e_def u_def)
  also have "\<dots> = sgn q * a"
    using u by simp
  also have "\<dots> = q"
    by (simp add: a_def sgn_mult_abs)
  finally show ?thesis .
qed

lemma float64_of_int: "\<bar>i\<bar> < 2 ^ 53 \<Longrightarrow> float64 (of_int i) = of_int i"
  using float64_exact [of "of_int i" i 0] by simp



section \<open>Facts about grouping\<close>

lemma distinct_unique: "distinct (unique xs)"
  by (induction xs) (auto simp: set_unique)

lemma set_map_filter_key: "set (List.map_filter key dff) = {k. \<exists>r \<in> set dff. key r = Some k}"
proof (induction dff)
  case Nil
  then show ?case by simp
next
  case (Cons r dff)
  then show ?case by (cases "key r") auto
qed

lemma groupby_keys: "map fst (groupby key dff) = sort (unique (List.map_filter key dff))"
  by (simp add: groupby_def comp_def)

lemma groupby_keys_sorted: "sorted (map fst (groupby key dff))"
  by (simp add: groupby_keys)

lemma groupby_keys_distinct: "distinct (map fst (groupby key dff))"
  by (simp add: groupby_keys distinct_unique)

lemma groupby_keys_set: "set (map fst (groupby key dff)) = {k. \<exists>r \<in> set dff. key r = Some k}"
  by (simp add: groupby_keys set_unique set_map_filter_key)








lemma groupby_mean_keys: "map fst (groupby_mean gsum gs) = map fst gs"
  by (simp add: groupby_mean_def comp_def case_prod_beta)








section \<open>The yearly mean series\<close>




section \<open>Rows without a country code\<close>


















end
